theory Spec2Isabelle
  imports Complex_Main
begin

section \<open>Python values, exceptions and dictionaries\<close>

text \<open>
  The program is a Python client of the Binance REST interface (\<^verbatim>\<open>src/main.py\<close>).
  Its data are JSON values decoded by \<^verbatim>\<open>json.loads\<close>, dictionaries built in
  place, and floating point amounts.

  \<^item> A raised exception is a value of \<open>py_exn\<close>; a computation that may raise has
    type \<open>py_exn + 'a\<close>, with \<open>Inl\<close> for the exception.
  \<^item> A Python \<^verbatim>\<open>dict\<close> keeps insertion order, so it is an association list
    with one entry per key; assigning to an existing key keeps its position.
  \<^item> Python floats are idealised as exact rationals: rounding error of IEEE doubles
    is outside the model, \<^verbatim>\<open>round(x, 2)\<close> is rounding to hundredths, half to even.
\<close>

datatype py_exn =
    KeyError string
  | TypeError
  | ValueError
  | RequestException string
  | JSONDecodeError string

datatype pyval =
    PNone
  | PBool bool
  | PInt int
  | PFloat rat
  | PStr string
  | PList "pyval list"
  | PDict "(string \<times> pyval) list"
  | PExc py_exn
  | PType

type_synonym pydict = "(string \<times> pyval) list"

text \<open>\<open>PType\<close> is the builtin class \<^verbatim>\<open>type\<close>; \<open>PExc\<close> an exception object
  stored in a dictionary.\<close>

definition bind_exn :: "'e + 'a \<Rightarrow> ('a \<Rightarrow> 'e + 'b) \<Rightarrow> 'e + 'b" where
  "bind_exn m f = (case m of Inl e \<Rightarrow> Inl e | Inr x \<Rightarrow> f x)"

definition dict_keys :: "('k \<times> 'v) list \<Rightarrow> 'k list" where
  "dict_keys d = map fst d"

definition dict_get :: "('k \<times> 'v) list \<Rightarrow> 'k \<Rightarrow> 'v option" where
  "dict_get d k = map_of d k"

text \<open>\<^verbatim>\<open>d[k]\<close>: the value, or \<^verbatim>\<open>KeyError\<close>.\<close>

definition dict_item :: "(string \<times> 'v) list \<Rightarrow> string \<Rightarrow> py_exn + 'v" where
  "dict_item d k = (case map_of d k of None \<Rightarrow> Inl (KeyError k) | Some v \<Rightarrow> Inr v)"

text \<open>\<^verbatim>\<open>d[k] = v\<close>: replaces the value of an existing key where it stands,
  appends a new key at the end.\<close>

fun dict_set :: "('k \<times> 'v) list \<Rightarrow> 'k \<Rightarrow> 'v \<Rightarrow> ('k \<times> 'v) list" where
  "dict_set [] k v = [(k, v)]"
| "dict_set ((k', v') # d) k v =
     (if k' = k then (k, v) # d else (k', v') # dict_set d k v)"

text \<open>\<^verbatim>\<open>x[k]\<close> and \<^verbatim>\<open>x[k] = v\<close> with a string key on an arbitrary value: only
  a dictionary accepts them.\<close>

definition py_getitem :: "pyval \<Rightarrow> string \<Rightarrow> py_exn + pyval" where
  "py_getitem x k = (case x of PDict d \<Rightarrow> dict_item d k | _ \<Rightarrow> Inl TypeError)"

definition py_setitem :: "pyval \<Rightarrow> string \<Rightarrow> pyval \<Rightarrow> py_exn + pyval" where
  "py_setitem x k v = (case x of PDict d \<Rightarrow> Inr (PDict (dict_set d k v)) | _ \<Rightarrow> Inl TypeError)"

text \<open>\<^verbatim>\<open>x.__contains__(k)\<close> for a dictionary \<open>x\<close>.\<close>

definition dict_contains :: "('k \<times> 'v) list \<Rightarrow> 'k \<Rightarrow> bool" where
  "dict_contains d k = (k \<in> set (map fst d))"

text \<open>\<^verbatim>\<open>for x in v\<close>: the items a value yields.\<close>

definition py_iter :: "pyval \<Rightarrow> py_exn + pyval list" where
  "py_iter v =
     (case v of
        PList xs \<Rightarrow> Inr xs
      | PDict d \<Rightarrow> Inr (map (\<lambda>kv. PStr (fst kv)) d)
      | PStr s \<Rightarrow> Inr (map (\<lambda>c. PStr [c]) s)
      | _ \<Rightarrow> Inl TypeError)"

section \<open>The outside world\<close>

text \<open>
  Library and network calls are parameters of the model, collected in one record.
  \<^item> \<open>requests_get\<close>, \<open>requests_post\<close>: \<^verbatim>\<open>json.loads(requests.get(url, params=..,
    headers=..).text)\<close>, the decoded body, or \<open>Inl\<close> the exception either call raised.
    The exchange is taken to answer a request by its content.
  \<^item> \<open>klines_get\<close>: the same for the klines address of \<^verbatim>\<open>get_symbol_klines\<close>, whose
    query string is kept as its fields.
  \<^item> \<open>hmac_sha256_hex\<close>: \<^verbatim>\<open>hmac.new(key, msg, hashlib.sha256).hexdigest()\<close>.
  \<^item> \<open>format_other\<close>: \<^verbatim>\<open>"{}".format(v)\<close> for a value that is neither a string nor
    an integer.
  \<^item> \<open>float_of_string\<close>: \<^verbatim>\<open>float(s)\<close> for a string, \<open>None\<close> where it raises.
  \<^item> \<open>decimal_format\<close>: \<^verbatim>\<open>format(ctx.create_decimal(repr(f)), 'f')\<close> with twelve
    digits of precision.
  \<^item> \<open>time_ms\<close>: \<^verbatim>\<open>int(round(time.time() * 1000))\<close>.
\<close>

record kline_query =
  q_symbol :: string
  q_interval :: string
  q_limit :: int
  q_endTime :: "int option"

record world =
  requests_get :: "string \<Rightarrow> pydict option \<Rightarrow> pydict option \<Rightarrow> py_exn + pyval"
  requests_post :: "string \<Rightarrow> pydict option \<Rightarrow> pydict option \<Rightarrow> py_exn + pyval"
  klines_get :: "kline_query \<Rightarrow> py_exn + pyval"
  hmac_sha256_hex :: "string \<Rightarrow> string \<Rightarrow> string"
  format_other :: "pyval \<Rightarrow> string"
  float_of_string :: "string \<Rightarrow> rat option"
  decimal_format :: "rat \<Rightarrow> string"
  time_ms :: int

section \<open>Transport: \<^verbatim>\<open>_get\<close> and \<^verbatim>\<open>_post\<close>\<close>

text \<open>The dictionary built by the \<^verbatim>\<open>except\<close> branch.\<close>

definition failure_value :: "string \<Rightarrow> py_exn \<Rightarrow> pyval" where
  "failure_value url e =
     PDict [(''code'', PStr ''-1''), (''url'', PStr url), (''msg'', PExc e)]"

text \<open>The \<^verbatim>\<open>try\<close> block: the request, the decoding, then \<^verbatim>\<open>data['url'] = url\<close>.\<close>

definition get_try :: "world \<Rightarrow> string \<Rightarrow> pydict option \<Rightarrow> pydict option \<Rightarrow> py_exn + pyval" where
  "get_try w url params headers =
     bind_exn (requests_get w url params headers) (\<lambda>data. py_setitem data ''url'' (PStr url))"

definition post_try :: "world \<Rightarrow> string \<Rightarrow> pydict option \<Rightarrow> pydict option \<Rightarrow> py_exn + pyval" where
  "post_try w url params headers =
     bind_exn (requests_post w url params headers) (\<lambda>data. py_setitem data ''url'' (PStr url))"

text \<open>\<^verbatim>\<open>_get\<close> and \<^verbatim>\<open>_post\<close>: \<^verbatim>\<open>except Exception\<close> replaces whatever the
  block raised by the failure dictionary. The two \<^verbatim>\<open>print\<close> calls of the handler
  write to the console only.\<close>

definition u_get :: "world \<Rightarrow> string \<Rightarrow> pydict option \<Rightarrow> pydict option \<Rightarrow> py_exn + pyval" where
  "u_get w url params headers =
     (case get_try w url params headers of
        Inr data \<Rightarrow> Inr data
      | Inl e \<Rightarrow> Inr (failure_value url e))"

definition u_post :: "world \<Rightarrow> string \<Rightarrow> pydict option \<Rightarrow> pydict option \<Rightarrow> py_exn + pyval" where
  "u_post w url params headers =
     (case post_try w url params headers of
        Inr data \<Rightarrow> Inr data
      | Inl e \<Rightarrow> Inr (failure_value url e))"

section \<open>Rendering values as text\<close>

definition digit_char :: "nat \<Rightarrow> char" where
  "digit_char n = ''0123456789'' ! n"

fun digits_of :: "nat \<Rightarrow> string" where
  "digits_of n = (if n < 10 then [digit_char n] else digits_of (n div 10) @ [digit_char (n mod 10)])"

declare digits_of.simps [simp del]

text \<open>\<^verbatim>\<open>str(i)\<close> for an integer.\<close>

definition str_int :: "int \<Rightarrow> string" where
  "str_int i = (if i < 0 then CHR ''-'' # digits_of (nat (- i)) else digits_of (nat i))"

text \<open>\<^verbatim>\<open>"{}".format(v)\<close>: a string is itself, an integer its decimal digits.\<close>

definition py_format :: "world \<Rightarrow> pyval \<Rightarrow> string" where
  "py_format w v = (case v of PStr s \<Rightarrow> s | PInt i \<Rightarrow> str_int i | _ \<Rightarrow> format_other w v)"

text \<open>\<^verbatim>\<open>sep.join(xs)\<close>.\<close>

fun join :: "string \<Rightarrow> string list \<Rightarrow> string" where
  "join sep [] = []"
| "join sep [x] = x"
| "join sep (x # y # ys) = x @ sep @ join sep (y # ys)"

section \<open>The client object and request signing\<close>

text \<open>An instance of \<^verbatim>\<open>Binance\<close> built with a credentials file: the two keys read
  from it. \<^verbatim>\<open>self.base\<close>, \<^verbatim>\<open>self.endpoints\<close> and \<^verbatim>\<open>self.headers\<close> are fixed by
  \<^verbatim>\<open>__init__\<close>.\<close>

record binance =
  api_key :: string
  secret_key :: string

definition base :: string where
  "base = ''https://api.binance.com''"

definition endpoints :: "(string \<times> string) list" where
  "endpoints =
     [(''order'', ''/api/v3/order''),
      (''testOrder'', ''/api/v3/order/test''),
      (''allOrders'', ''/api/v3/allOrders''),
      (''klines'', ''/api/v3/klines''),
      (''exchangeInfo'', ''/api/v3/exchangeInfo''),
      (''24hrTicker'', ''/api/v3/ticker/24hr''),
      (''averagePrice'', ''/api/v3/avgPrice''),
      (''orderBook'', ''/api/v3/depth''),
      (''account'', ''/api/v3/account'')]"

text \<open>\<^verbatim>\<open>self.endpoints[k]\<close> for one of the keys above (the only ones the code uses).\<close>

definition endpoint :: "string \<Rightarrow> string" where
  "endpoint k = (case map_of endpoints k of Some p \<Rightarrow> p | None \<Rightarrow> [])"

definition headers :: "binance \<Rightarrow> pydict" where
  "headers self = [(''X-MBX-APIKEY'', PStr (api_key self))]"

definition request_delay :: int where
  "request_delay = 0"

text \<open>\<^verbatim>\<open>'&'.join(["{}={}".format(d, params[d]) for d in params])\<close>.\<close>

definition query_string :: "world \<Rightarrow> pydict \<Rightarrow> string" where
  "query_string w params =
     join ''&'' (map (\<lambda>(d, v). py_format w (PStr d) @ ''='' @ py_format w v) params)"

text \<open>\<^verbatim>\<open>sign_request\<close> returns nothing and assigns \<^verbatim>\<open>params['signature']\<close>: the model
  returns the dictionary after the call.\<close>

definition sign_request :: "world \<Rightarrow> binance \<Rightarrow> pydict \<Rightarrow> pydict" where
  "sign_request w self params =
     (let query_string = query_string w params;
          signature = hmac_sha256_hex w (secret_key self) query_string
      in dict_set params ''signature'' (PStr signature))"

section \<open>Numbers\<close>

text \<open>\<^verbatim>\<open>float(v)\<close>: a string is parsed, a number converted, anything else raises.\<close>

definition py_float :: "world \<Rightarrow> pyval \<Rightarrow> py_exn + rat" where
  "py_float w v =
     (case v of
        PStr s \<Rightarrow> (case float_of_string w s of None \<Rightarrow> Inl ValueError | Some r \<Rightarrow> Inr r)
      | PInt i \<Rightarrow> Inr (of_int i)
      | PFloat r \<Rightarrow> Inr r
      | PBool b \<Rightarrow> Inr (if b then 1 else 0)
      | _ \<Rightarrow> Inl TypeError)"

definition round_half_even :: "rat \<Rightarrow> int" where
  "round_half_even y =
     (let f = \<lfloor>y\<rfloor>; d = y - of_int f
      in if d < 1 / 2 then f else if 1 / 2 < d then f + 1 else if even f then f else f + 1)"

text \<open>\<^verbatim>\<open>round(x, 2)\<close>.\<close>

definition round2 :: "rat \<Rightarrow> rat" where
  "round2 x = of_int (round_half_even (x * 100)) / 100"

text \<open>\<^verbatim>\<open>int(x)\<close> for a float: truncation towards zero.\<close>

definition py_int :: "rat \<Rightarrow> int" where
  "py_int x = (if 0 \<le> x then \<lfloor>x\<rfloor> else \<lceil>x\<rceil>)"

text \<open>\<^verbatim>\<open>s + v\<close> for a string \<open>s\<close>: \<open>v\<close> must be a string too.\<close>

definition str_add :: "string \<Rightarrow> pyval \<Rightarrow> py_exn + string" where
  "str_add s v = (case v of PStr t \<Rightarrow> Inr (s @ t) | _ \<Rightarrow> Inl TypeError)"

text \<open>A \<^verbatim>\<open>for\<close> loop over a list whose body updates a state and may raise.\<close>

fun for_each :: "('a \<Rightarrow> 's \<Rightarrow> py_exn + 's) \<Rightarrow> 'a list \<Rightarrow> 's \<Rightarrow> py_exn + 's" where
  "for_each body [] s = Inr s"
| "for_each body (x # xs) s =
     (case body x s of Inl e \<Rightarrow> Inl e | Inr s' \<Rightarrow> for_each body xs s')"

section \<open>Orders\<close>

definition float_to_string :: "world \<Rightarrow> rat \<Rightarrow> string" where
  "float_to_string w f = decimal_format w f"

text \<open>\<^verbatim>\<open>place_order\<close> up to and including \<^verbatim>\<open>self.sign_request(params)\<close>. The guard
  of the source reads \<^verbatim>\<open>type != 'MARKET'\<close>: it compares the builtin \<^verbatim>\<open>type\<close>, not
  the argument \<^verbatim>\<open>tpe\<close>.\<close>

definition place_order_params ::
  "world \<Rightarrow> binance \<Rightarrow> string \<Rightarrow> string \<Rightarrow> string \<Rightarrow> rat \<Rightarrow> rat \<Rightarrow> pydict" where
  "place_order_params w self symbol side tpe quantity price =
     (let params =
            [(''symbol'', PStr symbol),
             (''side'', PStr side),
             (''type'', PStr tpe),
             (''quoteOrderQty'', PFloat quantity),
             (''recvWindow'', PInt 5000),
             (''timestamp'', PInt (time_ms w + request_delay))];
          params =
            (if PType \<noteq> PStr ''MARKET''
             then dict_set (dict_set params ''timeInForce'' (PStr ''GTC''))
                    ''price'' (PStr (float_to_string w price))
             else params)
      in sign_request w self params)"

definition place_order ::
  "world \<Rightarrow> binance \<Rightarrow> string \<Rightarrow> string \<Rightarrow> string \<Rightarrow> rat \<Rightarrow> rat \<Rightarrow> bool \<Rightarrow> py_exn + pyval" where
  "place_order w self symbol side tpe quantity price test =
     (let params = place_order_params w self symbol side tpe quantity price;
          url = (if test then base @ endpoint ''testOrder'' else base @ endpoint ''order'')
      in u_post w url (Some params) (Some (headers self)))"

definition market_order_params :: "world \<Rightarrow> binance \<Rightarrow> string \<Rightarrow> string \<Rightarrow> rat \<Rightarrow> pydict" where
  "market_order_params w self symbol side quantity =
     sign_request w self
       [(''symbol'', PStr symbol),
        (''side'', PStr side),
        (''type'', PStr ''MARKET''),
        (''quoteOrderQty'', PFloat quantity),
        (''recvWindow'', PInt 5000),
        (''timestamp'', PInt (time_ms w + request_delay))]"

definition market_order :: "world \<Rightarrow> binance \<Rightarrow> string \<Rightarrow> string \<Rightarrow> rat \<Rightarrow> py_exn + pyval" where
  "market_order w self symbol side quantity =
     u_post w (base @ endpoint ''order'')
       (Some (market_order_params w self symbol side quantity)) (Some (headers self))"

section \<open>Trading symbols\<close>



definition get_24hr_ticker :: "world \<Rightarrow> binance \<Rightarrow> string \<Rightarrow> py_exn + pyval" where
  "get_24hr_ticker w self symbol =
     (let url = base @ endpoint ''24hrTicker'' @ ''?symbol='' @ symbol in u_get w url None None)"

section \<open>Account valuation\<close>

text \<open>The price lookup of \<^verbatim>\<open>get_account_balances\<close>:
  \<^verbatim>\<open>_get(self.base + self.endpoints['24hrTicker'] + "?symbol=" + balance['asset'] + 'USDT')['lastPrice']\<close>.\<close>

definition ticker_last_price :: "world \<Rightarrow> pyval \<Rightarrow> py_exn + pyval" where
  "ticker_last_price w asset =
     bind_exn (str_add (base @ endpoint ''24hrTicker'' @ ''?symbol='') asset) (\<lambda>u.
       bind_exn (u_get w (u @ ''USDT'') None None) (\<lambda>ticker.
         py_getitem ticker ''lastPrice''))"

text \<open>The first \<^verbatim>\<open>if\<close> of the loop body: the quote currency at face amount.\<close>

definition usdt_step :: "world \<Rightarrow> pyval \<Rightarrow> (string \<times> rat) list \<times> rat \<Rightarrow> py_exn + (string \<times> rat) list \<times> rat" where
  "usdt_step w balance st =
     (case st of (account_assets, balance_usd) \<Rightarrow>
        bind_exn (py_getitem balance ''asset'') (\<lambda>asset.
          if asset = PStr ''USDT'' then
            bind_exn (py_getitem balance ''free'') (\<lambda>free.
              bind_exn (py_float w free) (\<lambda>f.
                Inr (dict_set account_assets ''USDT'' (round2 f), balance_usd + f)))
          else Inr (account_assets, balance_usd)))"

text \<open>The second \<^verbatim>\<open>if\<close>: every other asset with a positive free amount, at its last
  price.\<close>

definition asset_step :: "world \<Rightarrow> pyval \<Rightarrow> (string \<times> rat) list \<times> rat \<Rightarrow> py_exn + (string \<times> rat) list \<times> rat" where
  "asset_step w balance st =
     (case st of (account_assets, balance_usd) \<Rightarrow>
        bind_exn (py_getitem balance ''asset'') (\<lambda>asset.
          if asset \<notin> set [PStr ''NFT'', PStr ''USDT'', PStr ''BRL''] then
            bind_exn (py_getitem balance ''free'') (\<lambda>free.
              bind_exn (py_float w free) (\<lambda>f.
                if 0 < f then
                  bind_exn (ticker_last_price w asset) (\<lambda>usd_price.
                    bind_exn (py_float w usd_price) (\<lambda>p.
                      bind_exn (str_add [] asset) (\<lambda>name.
                        Inr (dict_set account_assets (name @ ''USDT'') (round2 (p * f)),
                             balance_usd + p * f))))
                else Inr (account_assets, balance_usd)))
          else Inr (account_assets, balance_usd)))"

text \<open>One round of the loop. The counter \<^verbatim>\<open>cont\<close> of the source is never read and is
  left out.\<close>

definition balance_step :: "world \<Rightarrow> pyval \<Rightarrow> (string \<times> rat) list \<times> rat \<Rightarrow> py_exn + (string \<times> rat) list \<times> rat" where
  "balance_step w balance st = bind_exn (usdt_step w balance st) (asset_step w balance)"

text \<open>The signed parameters of \<^verbatim>\<open>get_account_data\<close> and of \<^verbatim>\<open>get_account_balances\<close>.\<close>

definition account_params :: "world \<Rightarrow> binance \<Rightarrow> pydict" where
  "account_params w self =
     sign_request w self
       [(''recvWindow'', PInt 6000), (''timestamp'', PInt (time_ms w + request_delay))]"

definition get_account_data :: "world \<Rightarrow> binance \<Rightarrow> py_exn + pyval" where
  "get_account_data w self =
     (let url = base @ endpoint ''account''
      in u_get w url (Some (account_params w self)) (Some (headers self)))"

definition get_account_balances :: "world \<Rightarrow> binance \<Rightarrow> py_exn + (string \<times> rat) list" where
  "get_account_balances w self =
     (let url = base @ endpoint ''account'' in
      bind_exn (u_get w url (Some (account_params w self)) (Some (headers self))) (\<lambda>spot_account.
        bind_exn (py_getitem spot_account ''balances'') (\<lambda>bs.
          bind_exn (py_iter bs) (\<lambda>balances.
            bind_exn (for_each (balance_step w) balances ([], 0)) (\<lambda>st.
              case st of (account_assets, balance_usd) \<Rightarrow>
                Inr (dict_set account_assets ''BALANCE'' (round2 balance_usd)))))))"

section \<open>Rebalancing\<close>

text \<open>A call \<^verbatim>\<open>exchange.market_order(symbol, side, quantity)\<close> made by \<^verbatim>\<open>main\<close>.\<close>

record order_call =
  o_symbol :: string
  o_side :: string
  o_quantity :: rat

text \<open>The body of \<^verbatim>\<open>for asset in wallet\<close>: the orders it sends, in order. A
  \<^verbatim>\<open>KeyError\<close> raised while a condition is evaluated leaves \<^verbatim>\<open>main\<close>; one raised
  inside a \<^verbatim>\<open>try\<close> is printed and the loop goes on. \<^verbatim>\<open>market_order\<close> itself never
  raises.\<close>

definition rebalance_asset ::
  "(string \<times> rat) list \<Rightarrow> (string \<times> rat) list \<Rightarrow> string \<Rightarrow> py_exn + order_call list" where
  "rebalance_asset wallet balances asset =
     (if asset \<notin> set [''USDT''] then
        if dict_contains balances asset then
          bind_exn (dict_item balances asset) (\<lambda>cur.
            bind_exn (dict_item wallet asset) (\<lambda>pct.
              bind_exn (dict_item balances ''BALANCE'') (\<lambda>total.
                Inr ((if (pct / 100) * total + 10 < cur
                      then [\<lparr>o_symbol = asset, o_side = ''SELL'',
                               o_quantity = round2 (cur - (pct / 100) * total)\<rparr>]
                      else [])
                     @ (if cur < (pct / 100) * total - 10
                        then [\<lparr>o_symbol = asset, o_side = ''BUY'',
                                 o_quantity = round2 ((pct / 100) * total - cur)\<rparr>]
                        else [])))))
        else
          (case bind_exn (dict_item wallet asset) (\<lambda>pct.
                  bind_exn (dict_item balances ''BALANCE'') (\<lambda>total.
                    Inr [\<lparr>o_symbol = asset, o_side = ''BUY'',
                           o_quantity = round2 (pct / 100 * total)\<rparr>])) of
             Inl e \<Rightarrow> Inr []
           | Inr orders \<Rightarrow> Inr orders)
      else Inr [])"

definition rebalance :: "(string \<times> rat) list \<Rightarrow> (string \<times> rat) list \<Rightarrow> py_exn + order_call list" where
  "rebalance wallet balances =
     for_each (\<lambda>asset sent. bind_exn (rebalance_asset wallet balances asset) (\<lambda>os. Inr (sent @ os)))
       (dict_keys wallet) []"

text \<open>\<^verbatim>\<open>main\<close>: \<open>excel\<close> are the rows of the spreadsheet, asset and percentage. The
  result lists the orders sent to \<^verbatim>\<open>market_order\<close>.\<close>

definition main :: "world \<Rightarrow> binance \<Rightarrow> (string \<times> rat) list \<Rightarrow> py_exn + order_call list" where
  "main w exchange excel =
     bind_exn (get_account_balances w exchange) (\<lambda>balances.
       let wallet = foldl (\<lambda>d row. dict_set d (fst row) (snd row)) [] excel
       in rebalance wallet balances)"

section \<open>Candles\<close>

text \<open>A row of the frame \<^verbatim>\<open>get_symbol_klines\<close> returns: the six columns it keeps and
  the \<^verbatim>\<open>date\<close> column it adds.\<close>

record candle =
  time :: rat
  "open" :: rat
  high :: rat
  low :: rat
  close :: rat
  volume :: rat
  date :: rat

fun map_exn :: "('a \<Rightarrow> py_exn + 'b) \<Rightarrow> 'a list \<Rightarrow> py_exn + 'b list" where
  "map_exn f [] = Inr []"
| "map_exn f (x # xs) =
     (case f x of
        Inl e \<Rightarrow> Inl e
      | Inr y \<Rightarrow> (case map_exn f xs of Inl e \<Rightarrow> Inl e | Inr ys \<Rightarrow> Inr (y # ys)))"

text \<open>One row of the decoded body: twelve columns, of which columns 6 to 11 are
  dropped and the first six converted with \<^verbatim>\<open>astype(float)\<close>.\<close>

definition row_candle :: "world \<Rightarrow> pyval \<Rightarrow> py_exn + candle" where
  "row_candle w row =
     (case row of
        PList (t # o' # h # l # c # v # rest) \<Rightarrow>
          if length rest = 6 then
            bind_exn (py_float w t) (\<lambda>t.
            bind_exn (py_float w o') (\<lambda>o'.
            bind_exn (py_float w h) (\<lambda>h.
            bind_exn (py_float w l) (\<lambda>l.
            bind_exn (py_float w c) (\<lambda>c.
            bind_exn (py_float w v) (\<lambda>v.
              Inr \<lparr>time = t, open = o', high = h, low = l, close = c, volume = v,
                   date = t * 1000000\<rparr>))))))
          else Inl ValueError
      | _ \<Rightarrow> Inl ValueError)"

text \<open>The frame built from the decoded body (\<^verbatim>\<open>DataFrame.from_dict\<close>, \<^verbatim>\<open>drop\<close>, the
  renaming and the conversions). On an empty list \<^verbatim>\<open>drop(range(6, 12), axis=1)\<close>
  raises \<^verbatim>\<open>KeyError\<close>. The model covers a list of twelve-column rows; for every other
  body it answers \<open>ValueError\<close>, where pandas raises one exception or another or pads
  ragged rows.\<close>

definition klines_frame :: "world \<Rightarrow> pyval \<Rightarrow> py_exn + candle list" where
  "klines_frame w dictionary =
     (case dictionary of
        PList rows \<Rightarrow>
          if rows = [] then Inl (KeyError ''[6, 7, 8, 9, 10, 11]'')
          else map_exn (row_candle w) rows
      | _ \<Rightarrow> Inl ValueError)"

text \<open>\<^verbatim>\<open>df['time'][0]\<close>.\<close>

definition time0 :: "candle list \<Rightarrow> py_exn + rat" where
  "time0 df = (case df of [] \<Rightarrow> Inl (KeyError ''0'') | c # _ \<Rightarrow> Inr (time c))"

text \<open>
  \<^verbatim>\<open>get_symbol_klines\<close> and \<^verbatim>\<open>get_symbol_klines_extra\<close> call each other;
  \<open>klines_rounds\<close> is the \<^verbatim>\<open>while repeat_rounds > 0\<close> loop of the latter, with the
  frame \<^verbatim>\<open>df\<close> as its state. \<^verbatim>\<open>end_time\<close> is a float or \<^verbatim>\<open>False\<close>, which is
  \<open>0\<close>: the test \<^verbatim>\<open>if end_time\<close> fails for both. \<^verbatim>\<open>int(limit / 1000)\<close> is
  \<open>limit div 1000\<close> for the positive integers it is computed on (as long as the
  float quotient is exact). \<^verbatim>\<open>df2.append(df, ignore_index=True)\<close> is concatenation.
\<close>

function get_symbol_klines :: "world \<Rightarrow> string \<Rightarrow> string \<Rightarrow> int \<Rightarrow> rat \<Rightarrow> py_exn + candle list"
  and get_symbol_klines_extra :: "world \<Rightarrow> string \<Rightarrow> string \<Rightarrow> int \<Rightarrow> rat \<Rightarrow> py_exn + candle list"
  and klines_rounds :: "world \<Rightarrow> string \<Rightarrow> string \<Rightarrow> int \<Rightarrow> candle list \<Rightarrow> py_exn + candle list"
where
  "get_symbol_klines w symbol interval limit end_time =
     (if 1000 < limit then get_symbol_klines_extra w symbol interval limit end_time
      else
        bind_exn
          (klines_get w \<lparr>q_symbol = symbol, q_interval = interval, q_limit = limit,
                         q_endTime = (if end_time \<noteq> 0 then Some (py_int end_time) else None)\<rparr>)
          (klines_frame w))"
| "get_symbol_klines_extra w symbol interval limit end_time =
     (let repeat_rounds = (if 1000 < limit then limit div 1000 else 0);
          initial_limit = (if limit mod 1000 = 0 then 1000 else limit mod 1000)
      in case get_symbol_klines w symbol interval initial_limit end_time of
           Inl e \<Rightarrow> Inl e
         | Inr df \<Rightarrow> klines_rounds w symbol interval repeat_rounds df)"
| "klines_rounds w symbol interval repeat_rounds df =
     (if 0 < repeat_rounds then
        (case time0 df of
           Inl e \<Rightarrow> Inl e
         | Inr t0 \<Rightarrow>
             (case get_symbol_klines w symbol interval 1000 t0 of
                Inl e \<Rightarrow> Inl e
              | Inr df2 \<Rightarrow> klines_rounds w symbol interval (repeat_rounds - 1) (df2 @ df)))
      else Inr df)"
  by pat_completeness auto
termination
  apply (relation "measure (\<lambda>x. case x of
      Inl (w, s, i, limit, e) \<Rightarrow> (if 1000 < limit then 3 + nat (limit div 1000) else 0)
    | Inr (Inl (w, s, i, limit, e)) \<Rightarrow> 2 + nat (if 1000 < limit then limit div 1000 else 0)
    | Inr (Inr (w, s, i, r, df)) \<Rightarrow> 1 + nat r)")
  apply (auto split: if_splits)
  done

declare get_symbol_klines.simps [simp del]
declare get_symbol_klines_extra.simps [simp del]
declare klines_rounds.simps [simp del]

section \<open>Exchanges used as examples\<close>

text \<open>
  An exchange that holds one candle at every integer open time from \<open>lo\<close> to \<open>hi\<close>
  and answers a klines query with the latest \<open>limit\<close> of them that open no later than
  \<^verbatim>\<open>endTime\<close> (\<open>inclusive\<close>) or strictly before it (otherwise). A limit below
  one is answered with an error object.
\<close>

definition tick_row :: "int \<Rightarrow> pyval" where
  "tick_row t =
     PList [PInt t, PStr ''1.0'', PStr ''1.0'', PStr ''1.0'', PStr ''1.0'', PStr ''1.0'',
            PInt t, PStr ''1.0'', PInt 1, PStr ''1.0'', PStr ''1.0'', PStr ''0'']"

definition tick_candle :: "int \<Rightarrow> candle" where
  "tick_candle t =
     \<lparr>time = of_int t, open = 1, high = 1, low = 1, close = 1, volume = 1,
      date = of_int t * 1000000\<rparr>"

definition tick_klines :: "bool \<Rightarrow> int \<Rightarrow> int \<Rightarrow> kline_query \<Rightarrow> py_exn + pyval" where
  "tick_klines inclusive lo hi q =
     (if q_limit q < 1 then Inr (PDict [(''code'', PInt (- 1100)), (''msg'', PStr ''limit'')])
      else
        let e = (case q_endTime q of
                   None \<Rightarrow> hi
                 | Some t \<Rightarrow> min hi (if inclusive then t else t - 1));
            a = max lo (e - q_limit q + 1)
        in Inr (PList (map tick_row [a..e])))"

text \<open>The rest of a world for examples: a table of replies by address, a stand-in for
  the keyed hash, and a parser of the few decimal strings the examples use.\<close>

definition example_floats :: "string \<Rightarrow> rat option" where
  "example_floats s =
     (if s = ''1.0'' then Some 1
      else if s = ''0.001'' then Some (1 / 1000)
      else if s = ''2.5'' then Some (5 / 2)
      else if s = ''4'' then Some 4
      else None)"

definition example_world ::
  "(string \<times> pyval) list \<Rightarrow> (kline_query \<Rightarrow> py_exn + pyval) \<Rightarrow> world" where
  "example_world replies klines =
     \<lparr>requests_get = (\<lambda>url params headers.
          case map_of replies url of
            None \<Rightarrow> Inl (RequestException ''unreachable'')
          | Some v \<Rightarrow> Inr v),
      requests_post = (\<lambda>url params headers.
          case map_of replies url of
            None \<Rightarrow> Inl (RequestException ''unreachable'')
          | Some v \<Rightarrow> Inr v),
      klines_get = klines,
      hmac_sha256_hex = (\<lambda>key msg. ''mac('' @ key @ '','' @ msg @ '')''),
      format_other = (\<lambda>v. ''?''),
      float_of_string = example_floats,
      decimal_format = (\<lambda>r. ''0''),
      time_ms = 1700000000000\<rparr>"

definition tick_world :: "bool \<Rightarrow> int \<Rightarrow> int \<Rightarrow> world" where
  "tick_world inclusive lo hi = example_world [] (tick_klines inclusive lo hi)"

section \<open>Terms of the statements\<close>













text \<open>The last open time of a page of the example exchange.\<close>

definition page_end :: "bool \<Rightarrow> int \<Rightarrow> rat \<Rightarrow> int" where
  "page_end inclusive hi e =
     (if e = 0 then hi else min hi (if inclusive then py_int e else py_int e - 1))"

section \<open>Example inputs\<close>

definition example_client :: binance where
  "example_client = \<lparr>api_key = ''key'', secret_key = ''secret''\<rparr>"







text \<open>An account that holds bitcoin and ether, on an exchange whose price lookup
  answers for ether and is unreachable for bitcoin.\<close>

definition unpriced_world :: world where
  "unpriced_world =
     example_world
       [(''https://api.binance.com/api/v3/account'',
         PDict [(''balances'', PList
            [PDict [(''asset'', PStr ''BTC''), (''free'', PStr ''1.0''), (''locked'', PStr ''0'')],
             PDict [(''asset'', PStr ''ETH''), (''free'', PStr ''2.5''), (''locked'', PStr ''0'')]])]),
        (''https://api.binance.com/api/v3/ticker/24hr?symbol=ETHUSDT'',
         PDict [(''symbol'', PStr ''ETHUSDT''), (''lastPrice'', PStr ''4'')])]
       (\<lambda>q. Inl ValueError)"



section \<open>Exceptions and dictionaries\<close>

lemma bind_exn_Inr [simp]: "bind_exn (Inr x) f = f x"
  by (simp add: bind_exn_def)

lemma bind_exn_Inl [simp]: "bind_exn (Inl e) f = Inl e"
  by (simp add: bind_exn_def)

lemma bind_exn_eq_Inr:
  "bind_exn m f = Inr y \<longleftrightarrow> (\<exists>x. m = Inr x \<and> f x = Inr y)"
  by (cases m) simp_all




lemma dict_get_dict_set_same: "dict_get (dict_set d k v) k = Some v"
  by (induction d) (auto simp: dict_get_def)

lemma dict_get_dict_set_other: "k' \<noteq> k \<Longrightarrow> dict_get (dict_set d k v) k' = dict_get d k'"
  by (induction d) (auto simp: dict_get_def)

lemma dict_set_fresh: "k \<notin> set (dict_keys d) \<Longrightarrow> dict_set d k v = d @ [(k, v)]"
  by (induction d) (auto simp: dict_keys_def)

lemma dict_keys_dict_set:
  "dict_keys (dict_set d k v) = (if k \<in> set (dict_keys d) then dict_keys d else dict_keys d @ [k])"
  by (induction d) (force simp: dict_keys_def)+

section \<open>Transport and signing\<close>

text \<open>
  Claim C6. Neither \<^verbatim>\<open>_get\<close> nor \<^verbatim>\<open>_post\<close> raises: each returns a dictionary. When
  the request or the decoding raised \<open>e\<close>, it is the failure value with the code
  \<^verbatim>\<open>'-1'\<close>, the address and \<open>e\<close> as the message; when the body decoded to an object,
  it is that object with the address stored under \<^verbatim>\<open>'url'\<close>. A body that decodes to
  anything but an object makes the assignment raise, and gives the failure value too.
\<close>

theorem transport_never_raises:
  "(\<exists>d. u_get w url params hdrs = Inr (PDict d)) \<and>
   (\<exists>d. u_post w url params hdrs = Inr (PDict d)) \<and>
   (\<forall>e. requests_get w url params hdrs = Inl e \<longrightarrow>
      u_get w url params hdrs =
        Inr (PDict [(''code'', PStr ''-1''), (''url'', PStr url), (''msg'', PExc e)])) \<and>
   (\<forall>e. requests_post w url params hdrs = Inl e \<longrightarrow>
      u_post w url params hdrs =
        Inr (PDict [(''code'', PStr ''-1''), (''url'', PStr url), (''msg'', PExc e)])) \<and>
   (\<forall>d. requests_get w url params hdrs = Inr (PDict d) \<longrightarrow>
      u_get w url params hdrs = Inr (PDict (dict_set d ''url'' (PStr url)))) \<and>
   (\<forall>d. requests_post w url params hdrs = Inr (PDict d) \<longrightarrow>
      u_post w url params hdrs = Inr (PDict (dict_set d ''url'' (PStr url)))) \<and>
   (\<forall>v. requests_get w url params hdrs = Inr v \<and> (\<forall>d. v \<noteq> PDict d) \<longrightarrow>
      u_get w url params hdrs = Inr (failure_value url TypeError)) \<and>
   (\<forall>v. requests_post w url params hdrs = Inr v \<and> (\<forall>d. v \<noteq> PDict d) \<longrightarrow>
      u_post w url params hdrs = Inr (failure_value url TypeError))"
proof -
  have g: "\<exists>d. u_get w url params hdrs = Inr (PDict d)"
    by (cases "requests_get w url params hdrs"; cases "projr (requests_get w url params hdrs)")
       (auto simp: u_get_def get_try_def bind_exn_def py_setitem_def failure_value_def)
  have p: "\<exists>d. u_post w url params hdrs = Inr (PDict d)"
    by (cases "requests_post w url params hdrs"; cases "projr (requests_post w url params hdrs)")
       (auto simp: u_post_def post_try_def bind_exn_def py_setitem_def failure_value_def)
  have other: "\<And>v. \<forall>d. v \<noteq> PDict d \<Longrightarrow> py_setitem v ''url'' (PStr url) = Inl TypeError"
    by (simp add: py_setitem_def split: pyval.splits)
  show ?thesis
    using g p other
    by (simp add: u_get_def u_post_def get_try_def post_try_def py_setitem_def failure_value_def)
qed

text \<open>An address that answers with an object, and one that is unreachable.\<close>

theorem transport_never_raises_witness:
  "u_get (example_world [(''https://x/ok'', PDict [(''a'', PInt 1)])] (\<lambda>q. Inl ValueError))
      ''https://x/ok'' None None
     = Inr (PDict [(''a'', PInt 1), (''url'', PStr ''https://x/ok'')]) \<and>
   u_post (example_world [(''https://x/ok'', PDict [(''a'', PInt 1)])] (\<lambda>q. Inl ValueError))
      ''https://x/down'' None None
     = Inr (PDict [(''code'', PStr ''-1''), (''url'', PStr ''https://x/down''),
                   (''msg'', PExc (RequestException ''unreachable''))])"
  using transport_never_raises
    [of "example_world [(''https://x/ok'', PDict [(''a'', PInt 1)])] (\<lambda>q. Inl ValueError)"
        "''https://x/ok''" None None]
    transport_never_raises
    [of "example_world [(''https://x/ok'', PDict [(''a'', PInt 1)])] (\<lambda>q. Inl ValueError)"
        "''https://x/down''" None None]
  by (simp add: example_world_def)

text \<open>
  Claim C7. \<^verbatim>\<open>sign_request\<close> stores under \<^verbatim>\<open>'signature'\<close>, in the dictionary it was
  given, the keyed hash of the query string; every other entry keeps its value, and a
  dictionary that had no signature gets the entry appended at its end. The query string
  is the entries as \<^verbatim>\<open>key=value\<close>, in the order of the dictionary, joined by \<^verbatim>\<open>&\<close>.
  The signature is determined by the secret and the query string.
\<close>

theorem sign_request_signature:
  "sign_request w self params =
     dict_set params ''signature''
       (PStr (hmac_sha256_hex w (secret_key self) (query_string w params))) \<and>
   dict_get (sign_request w self params) ''signature'' =
     Some (PStr (hmac_sha256_hex w (secret_key self) (query_string w params))) \<and>
   (\<forall>k. k \<noteq> ''signature'' \<longrightarrow> dict_get (sign_request w self params) k = dict_get params k) \<and>
   (''signature'' \<notin> set (dict_keys params) \<longrightarrow>
      sign_request w self params =
        params @ [(''signature'',
                   PStr (hmac_sha256_hex w (secret_key self) (query_string w params)))]) \<and>
   query_string w [] = [] \<and>
   (\<forall>k v. query_string w [(k, v)] = k @ ''='' @ py_format w v) \<and>
   (\<forall>k v p ps. query_string w ((k, v) # p # ps) =
      k @ ''='' @ py_format w v @ ''&'' @ query_string w (p # ps)) \<and>
   (\<forall>self' params'. secret_key self' = secret_key self \<and>
        query_string w params' = query_string w params \<longrightarrow>
      dict_get (sign_request w self' params') ''signature'' =
      dict_get (sign_request w self params) ''signature'')"
  by (simp add: sign_request_def Let_def dict_get_dict_set_same dict_get_dict_set_other
      dict_set_fresh query_string_def py_format_def)

text \<open>Two parameters signed with the secret \<^verbatim>\<open>s\<close>.\<close>

theorem sign_request_signature_witness:
  "sign_request (example_world [] (\<lambda>q. Inl ValueError)) \<lparr>api_key = ''k'', secret_key = ''s''\<rparr>
     [(''recvWindow'', PInt 6000), (''symbol'', PStr ''BTCUSDT'')] =
   [(''recvWindow'', PInt 6000), (''symbol'', PStr ''BTCUSDT''),
    (''signature'', PStr ''mac(s,recvWindow=6000&symbol=BTCUSDT)'')]"
  using sign_request_signature
    [of "example_world [] (\<lambda>q. Inl ValueError)" "\<lparr>api_key = ''k'', secret_key = ''s''\<rparr>"
        "[(''recvWindow'', PInt 6000), (''symbol'', PStr ''BTCUSDT'')]"]
  by (simp add: example_world_def dict_keys_def query_string_def py_format_def str_int_def
      digits_of.simps digit_char_def)

text \<open>
  Claim C9. Whatever the order type \<^verbatim>\<open>tpe\<close> is, \<^verbatim>\<open>'MARKET'\<close> included, the
  parameters \<^verbatim>\<open>place_order\<close> signs and posts hold \<^verbatim>\<open>timeInForce = 'GTC'\<close> and a
  \<^verbatim>\<open>price\<close>.
\<close>

theorem place_order_always_limit_fields:
  "place_order_params w self symbol side tpe quantity price =
     sign_request w self
       [(''symbol'', PStr symbol), (''side'', PStr side), (''type'', PStr tpe),
        (''quoteOrderQty'', PFloat quantity), (''recvWindow'', PInt 5000),
        (''timestamp'', PInt (time_ms w + request_delay)),
        (''timeInForce'', PStr ''GTC''), (''price'', PStr (float_to_string w price))] \<and>
   dict_get (place_order_params w self symbol side tpe quantity price) ''timeInForce'' =
     Some (PStr ''GTC'') \<and>
   dict_get (place_order_params w self symbol side tpe quantity price) ''price'' =
     Some (PStr (float_to_string w price)) \<and>
   dict_get (place_order_params w self symbol side ''MARKET'' quantity price) ''timeInForce'' =
     Some (PStr ''GTC'') \<and>
   place_order w self symbol side tpe quantity price test =
     u_post w (if test then base @ endpoint ''testOrder'' else base @ endpoint ''order'')
       (Some (place_order_params w self symbol side tpe quantity price)) (Some (headers self))"
  by (simp add: place_order_params_def place_order_def Let_def sign_request_def
      dict_get_dict_set_other dict_get_def)

section \<open>Trading symbols\<close>






section \<open>Rebalancing\<close>











text \<open>The wallet \<^verbatim>\<open>main\<close> builds from the spreadsheet has one entry per asset.\<close>

lemma wallet_keys_distinct:
  "distinct (dict_keys d) \<Longrightarrow>
   distinct (dict_keys (foldl (\<lambda>d row. dict_set d (fst row) (snd row)) d excel))"
  by (induction excel arbitrary: d) (simp_all add: dict_keys_dict_set)








section \<open>Account valuation\<close>





text \<open>The portfolio \<^verbatim>\<open>main\<close> receives always has a total.\<close>

lemma balances_have_total:
  assumes "get_account_balances w self = Inr account_assets"
  shows "\<exists>tot. dict_get account_assets ''BALANCE'' = Some tot"
  using assms
  by (auto simp: get_account_balances_def Let_def bind_exn_eq_Inr dict_get_dict_set_same
      split: prod.splits)

lemmas valuation_run =
  example_world_def get_account_balances_def Let_def base_def endpoint_def endpoints_def
  u_get_def get_try_def py_setitem_def py_getitem_def dict_item_def py_iter_def
  balance_step_def usdt_step_def asset_step_def py_float_def example_floats_def
  ticker_last_price_def str_add_def failure_value_def




text \<open>
  Claim C5, at an input where the code departs from it. The account holds bitcoin and
  ether; the price lookup for bitcoin cannot reach the exchange, so \<^verbatim>\<open>_get\<close> returns
  the failure value, which has no \<^verbatim>\<open>'lastPrice'\<close>: the subscript raises \<^verbatim>\<open>KeyError\<close> and
  \<^verbatim>\<open>get_account_balances\<close> returns no portfolio, although the lookup for ether answers.
\<close>

theorem failed_lookup_aborts_valuation:
  "u_get unpriced_world (base @ endpoint ''24hrTicker'' @ ''?symbol=BTCUSDT'') None None =
     Inr (failure_value (base @ endpoint ''24hrTicker'' @ ''?symbol=BTCUSDT'')
            (RequestException ''unreachable'')) \<and>
   ticker_last_price unpriced_world (PStr ''ETH'') = Inr (PStr ''4'') \<and>
   get_account_balances unpriced_world example_client = Inl (KeyError ''lastPrice'')"
  by (simp add: unpriced_world_def valuation_run)


section \<open>Candle pages\<close>

lemma tick_world_sel [simp]:
  "klines_get (tick_world inc lo hi) = tick_klines inc lo hi"
  "float_of_string (tick_world inc lo hi) = example_floats"
  by (simp_all add: tick_world_def example_world_def)

lemma row_candle_tick: "row_candle (tick_world inc lo hi) (tick_row t) = Inr (tick_candle t)"
  by (simp add: row_candle_def tick_row_def tick_candle_def py_float_def example_floats_def)

lemma map_exn_tick:
  "map_exn (row_candle (tick_world inc lo hi)) (map tick_row ts) = Inr (map tick_candle ts)"
  by (induction ts) (simp_all add: row_candle_tick)

lemma klines_frame_tick:
  "klines_frame (tick_world inc lo hi) (PList (map tick_row ts)) =
     (if ts = [] then Inl (KeyError ''[6, 7, 8, 9, 10, 11]'') else Inr (map tick_candle ts))"
  by (simp add: klines_frame_def map_exn_tick)

lemma tick_page:
  assumes "1 \<le> limit" "limit \<le> 1000"
  shows "get_symbol_klines (tick_world inc lo hi) s i limit e =
           (if [max lo (page_end inc hi e - limit + 1) .. page_end inc hi e] = []
            then Inl (KeyError ''[6, 7, 8, 9, 10, 11]'')
            else Inr (map tick_candle [max lo (page_end inc hi e - limit + 1) .. page_end inc hi e]))"
proof -
  have "klines_get (tick_world inc lo hi)
          \<lparr>q_symbol = s, q_interval = i, q_limit = limit,
             q_endTime = (if e \<noteq> 0 then Some (py_int e) else None)\<rparr> =
        Inr (PList (map tick_row [max lo (page_end inc hi e - limit + 1) .. page_end inc hi e]))"
    using assms(1) by (cases "e = 0") (simp_all add: tick_klines_def Let_def page_end_def)
  then show ?thesis
    using assms(2) by (simp only: get_symbol_klines.simps klines_frame_tick bind_exn_Inr) simp
qed

lemma py_int_of_int [simp]: "py_int (of_int a) = a"
  by (simp add: py_int_def)

lemma tick_page_full:
  assumes "1 \<le> lo" "lo \<le> a - 999" "a \<le> hi"
  shows "get_symbol_klines (tick_world True lo hi) s i 1000 (of_int a) =
           Inr (map tick_candle [a - 999 .. a])"
proof -
  have "a \<noteq> 0" using assms by linarith
  then have "page_end True hi (of_int a) = a"
    using assms by (simp add: page_end_def)
  then show ?thesis
    using assms by (simp add: tick_page)
qed

lemma time_tick [simp]: "time (tick_candle t) = of_int t"
  by (simp add: tick_candle_def)

lemma hd_upto: "a \<le> b \<Longrightarrow> hd [a..b] = a"
  by (simp add: upto_rec1)

lemma tick_rounds_length:
  assumes "1 \<le> lo" "df \<noteq> []" "time (hd df) = of_int a" "lo \<le> a - 999 * int r" "a \<le> hi"
  shows "\<exists>out. klines_rounds (tick_world True lo hi) s i (int r) df = Inr out \<and>
           length out = length df + 1000 * r"
  using assms(2-)
proof (induction r arbitrary: df a)
  case 0
  then show ?case by (simp add: klines_rounds.simps)
next
  case (Suc r)
  let ?df2 = "map tick_candle [a - 999 .. a]"
  have t0: "time0 df = Inr (of_int a)"
    using Suc.prems(1,2) by (cases df) (simp_all add: time0_def)
  have page: "get_symbol_klines (tick_world True lo hi) s i 1000 (of_int a) = Inr ?df2"
    using Suc.prems assms(1) by (intro tick_page_full) auto
  have step: "klines_rounds (tick_world True lo hi) s i (int (Suc r)) df =
                klines_rounds (tick_world True lo hi) s i (int r) (?df2 @ df)"
    by (subst klines_rounds.simps) (simp add: t0 page)
  have "hd (?df2 @ df) = tick_candle (a - 999)"
    by (simp add: hd_map hd_upto)
  then have "\<exists>out. klines_rounds (tick_world True lo hi) s i (int r) (?df2 @ df) = Inr out \<and>
           length out = length (?df2 @ df) + 1000 * r"
    using Suc.prems by (intro Suc.IH [of _ "a - 999"]) (auto simp: algebra_simps)
  then show ?case
    unfolding step by auto
qed

lemma tick_klines_length:
  assumes "1 \<le> lo" "1000 < N"
    and "lo + 999 * (N div 1000) + (if N mod 1000 = 0 then 1000 else N mod 1000) - 1 \<le> hi"
  shows "\<exists>out. get_symbol_klines (tick_world True lo hi) s i N 0 = Inr out \<and>
           int (length out) = (if N mod 1000 = 0 then 1000 else N mod 1000) + 1000 * (N div 1000)"
proof -
  define init where "init = (if N mod 1000 = 0 then 1000 else N mod 1000)"
  define r where "r = nat (N div 1000)"
  have init: "1 \<le> init" "init \<le> 1000"
    by (auto simp: init_def)
  have r: "int r = N div 1000" "1 \<le> N div 1000"
    using assms(2) by (auto simp: r_def)
  have hi: "lo + 999 * int r + init - 1 \<le> hi"
    using assms(3) by (simp add: init_def r)
  let ?first = "map tick_candle [hi - init + 1 .. hi]"
  have lo_hi: "lo \<le> hi - init + 1" "hi - init + 1 \<le> hi"
    using hi init r by auto
  have first: "get_symbol_klines (tick_world True lo hi) s i init 0 = Inr ?first"
    using init lo_hi by (simp add: tick_page page_end_def)
  have "\<exists>out. klines_rounds (tick_world True lo hi) s i (int r) ?first = Inr out \<and>
           length out = length ?first + 1000 * r"
    using lo_hi hi assms(1) by (intro tick_rounds_length [of _ _ "hi - init + 1"]) (auto simp: hd_map hd_upto)
  then obtain out where out: "klines_rounds (tick_world True lo hi) s i (N div 1000) ?first = Inr out"
    and len: "length out = length ?first + 1000 * r"
    by (auto simp: r)
  have "get_symbol_klines (tick_world True lo hi) s i N 0 = Inr out"
    using assms(2) first out
    by (simp add: get_symbol_klines.simps [of _ _ _ N] get_symbol_klines_extra.simps Let_def
        init_def [symmetric])
  moreover have "int (length out) = init + 1000 * (N div 1000)"
    using len init r(1) by simp
  ultimately show ?thesis
    by (auto simp: init_def)
qed

text \<open>The example of the specification: 2500 candles are fetched as pages of 500, 1000
  and 1000 rows.\<close>

lemma klines_2500:
  "\<exists>out. get_symbol_klines (tick_world True 1 5000) ''BTCUSDT'' ''1m'' 2500 0 = Inr out \<and>
     length out = 2500"
  using tick_klines_length [of 1 2500 5000 "''BTCUSDT''" "''1m''"] by simp

text \<open>
  Claim C1, at an input where the code departs from it. The exchange holds 5000
  candles and 2000 are requested: \<^verbatim>\<open>repeat_rounds\<close> is 2 and \<^verbatim>\<open>initial_limit\<close> becomes
  1000 without \<^verbatim>\<open>repeat_rounds\<close> being lowered, so three pages of 1000 rows are fetched
  and the frame returned has 3000 rows, not 2000.
\<close>

theorem exact_multiple_fetches_extra_page:
  "\<exists>out. get_symbol_klines (tick_world True 1 5000) ''BTCUSDT'' ''1m'' 2000 0 = Inr out \<and>
     length out = 3000"
  using tick_klines_length [of 1 2000 5000 "''BTCUSDT''" "''1m''"] by simp








end
